theory Spec2Isabelle
  imports Main "HOL-Library.Word" "HOL-Library.Multiset"
begin

unbundle bit_operations_syntax

section \<open>The closest-peers lookup of the Kademlia DHT (lookup.go)\<close>

text \<open>
  A shallow embedding of \<^verbatim>\<open>lookup.go\<close>: the key formatting helpers
  \<^verbatim>\<open>tryFormatLoggableKey\<close> and \<^verbatim>\<open>loggableKey\<close>, and the node lookup
  \<^verbatim>\<open>GetClosestPeers\<close> with the closure it hands to the query runner and the
  goroutine that delivers the result over a buffered channel.

  What the file calls but does not define is a parameter of the model: the routing table,
  the network call \<^verbatim>\<open>findPeerSingle\<close>, the query runner behind
  \<^verbatim>\<open>newQuery\<close>/\<^verbatim>\<open>Run\<close>, the hash into the key space, the conversion of protobuf
  peers, the two text encoders and the largest channel the runtime can make. The sort
  of the library go-libp2p-kbucket is modelled from the specification, and so is, for
  the claim about failing peers, the query runner. Effects (logging, published events,
  calls to the collaborators, channel operations) are recorded as a trace of events, in
  the order the code performs them.
\<close>

subsection \<open>Data\<close>

type_synonym peer_ID = string
  \<comment> \<open>\<^verbatim>\<open>peer.ID\<close> is a Go string\<close>

type_synonym ID = "256 word"
  \<comment> \<open>\<^verbatim>\<open>kb.ID\<close>: a 32 byte digest, read as a big-endian unsigned number\<close>

type_synonym Time = int
  \<comment> \<open>instants and durations, in nanoseconds\<close>

datatype error =
    ErrLookupFailure
  | ErrKeyEmpty
  | ErrNotAPath string
  | DeadlineExceeded
  | Canceled
  | ErrNotFound
  | ErrRPC string

type_synonym LoggableMap = "(string \<times> string) list"

text \<open>The protobuf message of the wire protocol and the address record of a peer.\<close>

record Message_Peer =
  Id :: string
  Addresses :: "string list"

record Message =
  CloserPeers :: "Message_Peer list"

definition GetCloserPeers :: "Message \<Rightarrow> Message_Peer list" where
  "GetCloserPeers pmes = CloserPeers pmes"

record AddrInfo =
  ID :: peer_ID
  Addrs :: "string list"

text \<open>
  The result of a query: of the struct \<^verbatim>\<open>dhtQueryResult\<close> the lookup reads and
  writes two fields. \<^verbatim>\<open>queriedSet\<close> is a pointer to a \<^verbatim>\<open>peer.Set\<close>:
  \<open>None\<close> is the nil pointer, and a set is the list that its \<^verbatim>\<open>Peers()\<close> returns.
\<close>

type_synonym peer_Set = "peer_ID list"

definition Peers :: "peer_Set \<Rightarrow> peer_ID list" where
  "Peers s = s"

record dhtQueryResult =
  closerPeers :: "AddrInfo list"
  queriedSet :: "peer_Set option"

subsection \<open>Collaborators\<close>

text \<open>
  The package-level names the file uses from elsewhere: the fan-out \<^verbatim>\<open>AlphaValue\<close>,
  the largest size for which the runtime's \<^verbatim>\<open>make(chan peer.ID, n)\<close> gives a channel,
  the hashes \<^verbatim>\<open>kb.ConvertKey\<close> and \<^verbatim>\<open>kb.ConvertPeerID\<close>,
  \<^verbatim>\<open>pb.PBPeersToPeerInfos\<close>, \<^verbatim>\<open>cid.Cast\<close> followed by \<^verbatim>\<open>String\<close>, and
  the unpadded base32 encoder.
\<close>

record pkg =
  AlphaValue :: int
  makechan_max :: int
  ConvertKey :: "string \<Rightarrow> ID"
  ConvertPeerID :: "peer_ID \<Rightarrow> ID"
  PBPeersToPeerInfos :: "Message_Peer list \<Rightarrow> AddrInfo list"
  cid_Cast :: "string \<Rightarrow> string option"
  cid_String :: "string \<Rightarrow> string"
  base32_EncodeToString :: "string \<Rightarrow> string"

subsection \<open>Formatting a key for the log\<close>

text \<open>\<^verbatim>\<open>strings.IndexByte\<close>: the index of the first occurrence, or \<open>-1\<close>.\<close>

definition IndexByte :: "string \<Rightarrow> char \<Rightarrow> int" where
  "IndexByte s c =
     (if c \<in> set s then int (length (takeWhile (\<lambda>x. x \<noteq> c) s)) else - 1)"

text \<open>
  A Go slice expression \<^verbatim>\<open>s[lo:hi]\<close> panics unless \<open>0 \<le> lo \<le> hi \<le> len s\<close>;
  \<open>None\<close> is the panic.
\<close>

definition go_slice :: "'a list \<Rightarrow> int \<Rightarrow> int \<Rightarrow> 'a list option" where
  "go_slice s lo hi =
     (if 0 \<le> lo \<and> lo \<le> hi \<and> hi \<le> int (length s)
      then Some (take (nat (hi - lo)) (drop (nat lo) s)) else None)"

definition Sprintf_path :: "string \<Rightarrow> string \<Rightarrow> string" where
  \<comment> \<open>\<^verbatim>\<open>fmt.Sprintf("/%s/%s", proto, encStr)\<close>\<close>
  "Sprintf_path proto encStr = ''/'' @ proto @ ''/'' @ encStr"

definition encode_cstr :: "pkg \<Rightarrow> string \<Rightarrow> string" where
  \<comment> \<open>lines 38 to 44: the CID's text when the bytes are a CID, base32 otherwise\<close>
  "encode_cstr P cstr =
     (case cid_Cast P cstr of
        Some c \<Rightarrow> cid_String P c
      | None \<Rightarrow> base32_EncodeToString P cstr)"

text \<open>
  The result is the pair the Go function returns, or \<open>None\<close> when a slice expression
  panics.
\<close>

definition tryFormatLoggableKey ::
  "pkg \<Rightarrow> string \<Rightarrow> (string \<times> error option) option" where
  "tryFormatLoggableKey P k =
     (if length k = 0 then Some ('''', Some ErrKeyEmpty)
      else if hd k = CHR ''/'' then
        (let protoEnd = IndexByte (drop 1 k) (CHR ''/'') in
         if protoEnd < 0 then Some (k, Some (ErrNotAPath k))
         else
           (case go_slice k 1 (protoEnd + 1) of
              None \<Rightarrow> None
            | Some proto \<Rightarrow>
                (case go_slice k (protoEnd + 2) (int (length k)) of
                   None \<Rightarrow> None
                 | Some cstr \<Rightarrow> Some (Sprintf_path proto (encode_cstr P cstr), None))))
      else Some (Sprintf_path ''provider'' (encode_cstr P k), None))"

datatype log_event = Debug error

text \<open>
  \<^verbatim>\<open>loggableKey\<close> returns the map and the lines it logged; \<open>None\<close> when the
  formatter panicked.
\<close>

definition loggableKey ::
  "pkg \<Rightarrow> string \<Rightarrow> (LoggableMap \<times> log_event list) option" where
  "loggableKey P k =
     (case tryFormatLoggableKey P k of
        None \<Rightarrow> None
      | Some (newKey, Some err) \<Rightarrow> Some ([(''key'', k)], [Debug err])
      | Some (newKey, None) \<Rightarrow> Some ([(''key'', newKey)], []))"

subsection \<open>Contexts\<close>

text \<open>
  The standard library's \<^verbatim>\<open>context.Context\<close>, as far as the lookup uses it. The
  caller's context has an optional deadline and an optional instant at which the caller
  cancels it. \<^verbatim>\<open>context.WithTimeout(parent, d)\<close>, called at the instant \<open>now\<close>,
  is \<^verbatim>\<open>WithDeadline(parent, now + d)\<close>; the child is done as soon as its parent is, or
  its own deadline has passed.
\<close>

datatype Context =
    Caller "Time option" "Time option"
  | WithDeadline Context Time

definition Minute :: Time where
  "Minute = 60 * 1000000000"

definition WithTimeout :: "Context \<Rightarrow> Time \<Rightarrow> Time \<Rightarrow> Context" where
  "WithTimeout parent now d = WithDeadline parent (now + d)"

fun is_Done :: "Context \<Rightarrow> Time \<Rightarrow> bool" where
  "is_Done (Caller dl cn) t =
     ((case dl of None \<Rightarrow> False | Some d \<Rightarrow> d \<le> t) \<or>
      (case cn of None \<Rightarrow> False | Some c \<Rightarrow> c \<le> t))"
| "is_Done (WithDeadline parent d) t = (is_Done parent t \<or> d \<le> t)"

subsection \<open>Events\<close>

datatype QueryEventType = SendingQuery | PeerResponse

datatype QueryEvent = QueryEvent QueryEventType peer_ID "AddrInfo list"
  \<comment> \<open>\<^verbatim>\<open>routing.QueryEvent{Type, ID, Responses}\<close>\<close>

text \<open>What a run of the query runner can do that is visible from outside.\<close>

datatype run_event =
    PublishQueryEvent Context QueryEvent
  | Call_findPeerSingle Context peer_ID peer_ID
  | Debugf_closer error
      \<comment> \<open>\<^verbatim>\<open>logger.Debugf("error getting closer peers: %s", err)\<close>\<close>

datatype chan_op = Send peer_ID | Close

datatype event =
    Log log_event
  | EventBegin Context string LoggableMap
  | Call_NearestPeers ID int
  | Call_Run Context "peer_ID list"
  | InRun run_event
  | Debugf_run error
      \<comment> \<open>\<^verbatim>\<open>logger.Debugf("closestPeers query run error: %s", err)\<close>\<close>
  | ResetCplRefreshedAtForID ID Time
  | Chan chan_op
  | Cancel
  | EventDone
  | Panic

subsection \<open>The DHT and its query runner\<close>

text \<open>
  The per-peer query function handed to \<^verbatim>\<open>newQuery\<close>, and the runner:
  \<^verbatim>\<open>dht.newQuery(key, f)\<close> followed by \<^verbatim>\<open>Run(ctx, peers)\<close>, which returns a
  result pointer, an error, and what happened during the run. Both pointers may be nil or
  not, independently, as the signature of \<^verbatim>\<open>Run\<close> allows. The runner and
  \<^verbatim>\<open>findPeerSingle\<close> are methods of the DHT defined in other files, so they are
  fields of its record.
\<close>

type_synonym queryFunc =
  "Context \<Rightarrow> peer_ID \<Rightarrow> (dhtQueryResult option \<times> error option) \<times> run_event list"

type_synonym runner =
  "string \<Rightarrow> queryFunc \<Rightarrow> Context \<Rightarrow> peer_ID list \<Rightarrow>
     (dhtQueryResult option \<times> error option) \<times> run_event list"

record RoutingTable =
  NearestPeers :: "ID \<Rightarrow> int \<Rightarrow> peer_ID list"

record IpfsDHT =
  routingTable :: RoutingTable
  bucketSize :: int
  findPeerSingle :: "Context \<Rightarrow> peer_ID \<Rightarrow> peer_ID \<Rightarrow> error + Message"
  newQuery_Run :: runner

subsection \<open>Channels\<close>

text \<open>
  A buffered channel of peers: its capacity, the elements waiting in it, and whether it
  has been closed. \<^verbatim>\<open>make(chan peer.ID, n)\<close> panics (\<^verbatim>\<open>makechan: size out of range\<close>)
  when \<open>n\<close> is negative or the buffer would exceed what the runtime can allocate. A send
  on a closed channel and a second close panic; a send finds room in the buffer or blocks.
  (Go also hands an element over to a receiver that is already waiting; the model asks for
  room in the buffer even then, which can only make a send block more often.)
\<close>

record chan =
  ch_cap :: nat
  ch_buf :: "peer_ID list"
  ch_closed :: bool

definition make_chan :: "int \<Rightarrow> int \<Rightarrow> chan option" where
  "make_chan limit n =
     (if n < 0 \<or> limit < n then None else Some \<lparr>ch_cap = nat n, ch_buf = [], ch_closed = False\<rparr>)"

datatype 'a chan_result = Ok 'a | Blocks | ChanPanic

definition chan_send :: "chan \<Rightarrow> peer_ID \<Rightarrow> chan chan_result" where
  "chan_send c p =
     (if ch_closed c then ChanPanic
      else if length (ch_buf c) < ch_cap c then Ok (c\<lparr>ch_buf := ch_buf c @ [p]\<rparr>)
      else Blocks)"

definition chan_close :: "chan \<Rightarrow> chan chan_result" where
  "chan_close c = (if ch_closed c then ChanPanic else Ok (c\<lparr>ch_closed := True\<rparr>))"

datatype recv = Recv peer_ID chan | EndOfChan | RecvBlocks

definition chan_recv :: "chan \<Rightarrow> recv" where
  "chan_recv c =
     (case ch_buf c of
        x # xs \<Rightarrow> Recv x (c\<lparr>ch_buf := xs\<rparr>)
      | [] \<Rightarrow> if ch_closed c then EndOfChan else RecvBlocks)"

fun chan_exec :: "chan_op \<Rightarrow> chan \<Rightarrow> chan chan_result" where
  "chan_exec (Send p) c = chan_send c p"
| "chan_exec Close c = chan_close c"

text \<open>The producer alone: its operations in order, while nobody receives.\<close>

fun run_ops :: "chan_op list \<Rightarrow> chan \<Rightarrow> chan chan_result" where
  "run_ops [] c = Ok c"
| "run_ops (x # xs) c =
     (case chan_exec x c of Ok c' \<Rightarrow> run_ops xs c' | Blocks \<Rightarrow> Blocks | ChanPanic \<Rightarrow> ChanPanic)"

text \<open>
  The consumer's \<^verbatim>\<open>for p := range out\<close>, run when the producer has finished: it
  receives until the channel is closed and empty, and yields what it received and the
  channel it leaves behind. \<open>None\<close>: it would wait for ever, the channel being empty
  and open.
\<close>

function drain :: "chan \<Rightarrow> (peer_ID list \<times> chan) option" where
  "drain c =
     (case chan_recv c of
        Recv p c' \<Rightarrow> (case drain c' of None \<Rightarrow> None | Some (ps, d) \<Rightarrow> Some (p # ps, d))
      | EndOfChan \<Rightarrow> Some ([], c)
      | RecvBlocks \<Rightarrow> None)"
  by pat_completeness auto
termination
  by (relation "measure (\<lambda>c. length (ch_buf c))")
    (auto simp: chan_recv_def split: list.splits if_splits)

declare drain.simps [simp del]

text \<open>
  Producer and consumer interleaved in any order: the state is what the producer still has
  to do, the channel, and what the consumer has received so far.
\<close>

record sys =
  todo :: "chan_op list"
  ch :: chan
  got :: "peer_ID list"

inductive step :: "sys \<Rightarrow> sys \<Rightarrow> bool" where
  produce: "todo s = x # xs \<Longrightarrow> chan_exec x (ch s) = Ok c' \<Longrightarrow>
            step s (s\<lparr>todo := xs, ch := c'\<rparr>)"
| consume: "chan_recv (ch s) = Recv p c' \<Longrightarrow>
            step s (s\<lparr>ch := c', got := got s @ [p]\<rparr>)"

inductive reach :: "sys \<Rightarrow> sys \<Rightarrow> bool" for s where
  reach_refl: "reach s s"
| reach_step: "reach s t \<Longrightarrow> step t u \<Longrightarrow> reach s u"

subsection \<open>Ranking by distance\<close>

text \<open>
  Modelled from the spec: \<^verbatim>\<open>kb.SortClosestPeers\<close> and the distance it sorts by
  belong to the library go-libp2p-kbucket, outside this repository. Section 4.1 of the
  specification: \<open>closestFirst(set, reference)\<close> sorts a set of peers ascending by
  distance to the reference, stable for ties, the distance being the bitwise XOR of the
  two addresses read as an unsigned integer.
\<close>

definition distance :: "pkg \<Rightarrow> ID \<Rightarrow> peer_ID \<Rightarrow> ID" where
  "distance P target p = ConvertPeerID P p XOR target"

definition SortClosestPeers :: "pkg \<Rightarrow> peer_ID list \<Rightarrow> ID \<Rightarrow> peer_ID list" where
  "SortClosestPeers P peers target = sort_key (distance P target) peers"

subsection \<open>GetClosestPeers\<close>

text \<open>The closure of lines 82 to 104; \<open>parent\<close> is the context of the caller.\<close>

definition queryFn :: "IpfsDHT \<Rightarrow> pkg \<Rightarrow> Context \<Rightarrow> string \<Rightarrow> queryFunc" where
  "queryFn dht P parent key ctx p =
     (let sending = PublishQueryEvent parent (QueryEvent SendingQuery p []);
          call = Call_findPeerSingle ctx p key
      in case findPeerSingle dht ctx p key of
           Inl err \<Rightarrow> ((None, Some err), [sending, call, Debugf_closer err])
         | Inr pmes \<Rightarrow>
             (let peers = PBPeersToPeerInfos P (GetCloserPeers pmes)
              in ((Some \<lparr>closerPeers = peers, queriedSet = None\<rparr>, None),
                  [sending, call, PublishQueryEvent parent (QueryEvent PeerResponse p peers)])))"

text \<open>What the goroutine of lines 106 to 131 captures.\<close>

record goroutine =
  g_ctx :: Context
  g_key :: string
  g_tablepeers :: "peer_ID list"
  g_query :: queryFunc
  g_out :: chan

text \<open>
  A call of \<^verbatim>\<open>GetClosestPeers\<close>: what it returns (\<open>None\<close> when it panics instead),
  the events up to that point, and the goroutine it has started, if any.
\<close>

record call =
  returned :: "(chan option \<times> error option) option"
  trace :: "event list"
  spawned :: "goroutine option"

definition GetClosestPeers :: "IpfsDHT \<Rightarrow> pkg \<Rightarrow> Context \<Rightarrow> string \<Rightarrow> call" where
  "GetClosestPeers dht P ctx key =
     (case loggableKey P key of
        None \<Rightarrow> \<lparr>returned = None, trace = [Panic], spawned = None\<rparr>
      | Some (lk, logged) \<Rightarrow>
          (let begun = map Log logged @ [EventBegin ctx ''getClosestPeers'' lk];
               tablepeers = NearestPeers (routingTable dht) (ConvertKey P key) (AlphaValue P);
               tr = begun @ [Call_NearestPeers (ConvertKey P key) (AlphaValue P)]
           in if length tablepeers = 0
              then \<lparr>returned = Some (None, Some ErrLookupFailure), trace = tr, spawned = None\<rparr>
              else
                (case make_chan (makechan_max P) (bucketSize dht) of
                   None \<Rightarrow> \<lparr>returned = None, trace = tr @ [Panic], spawned = None\<rparr>
                 | Some out \<Rightarrow>
                     \<lparr>returned = Some (Some out, None), trace = tr,
                      spawned = Some \<lparr>g_ctx = ctx, g_key = key, g_tablepeers = tablepeers,
                                      g_query = queryFn dht P ctx key, g_out = out\<rparr>\<rparr>)))"

text \<open>Lines 122 to 125: the slice expression panics on a negative bound.\<close>

definition truncate_sorted :: "peer_ID list \<Rightarrow> int \<Rightarrow> peer_ID list option" where
  "truncate_sorted srt n =
     (let l = int (length srt) in if l > n then go_slice srt 0 n else Some srt)"

text \<open>
  The body of the goroutine, as the events it performs in order. \<open>now0\<close> is the instant
  at which it derives the timed context, \<open>now1\<close> the instant it passes to the routing
  table. The deferred calls run last, in reverse order of their \<^verbatim>\<open>defer\<close>.
\<close>

definition finalize :: "IpfsDHT \<Rightarrow> pkg \<Rightarrow> string \<Rightarrow> Time \<Rightarrow> dhtQueryResult option \<Rightarrow> event list" where
  \<comment> \<open>lines 117 to 130\<close>
  "finalize dht P key now1 res =
     (case res of
        None \<Rightarrow> []
      | Some r \<Rightarrow>
          (case queriedSet r of
             None \<Rightarrow> []
           | Some qs \<Rightarrow>
               ResetCplRefreshedAtForID (ConvertKey P key) now1 #
               (case truncate_sorted (SortClosestPeers P (Peers qs) (ConvertKey P key))
                       (bucketSize dht) of
                  None \<Rightarrow> [Panic]
                | Some srt \<Rightarrow> map (\<lambda>p. Chan (Send p)) srt)))"

definition go_func :: "IpfsDHT \<Rightarrow> pkg \<Rightarrow> goroutine \<Rightarrow> Time \<Rightarrow> Time \<Rightarrow> event list" where
  "go_func dht P g now0 now1 =
     (let timedCtx = WithTimeout (g_ctx g) now0 Minute;
          ((res, err), happened) = newQuery_Run dht (g_key g) (g_query g) timedCtx (g_tablepeers g)
      in [Call_Run timedCtx (g_tablepeers g)] @ map InRun happened @
         (case err of None \<Rightarrow> [] | Some e \<Rightarrow> [Debugf_run e]) @
         finalize dht P (g_key g) now1 res @
         [Cancel, EventDone, Chan Close])"

fun chan_ops :: "event list \<Rightarrow> chan_op list" where
  "chan_ops [] = []"
| "chan_ops (Chan x # es) = x # chan_ops es"
| "chan_ops (_ # es) = chan_ops es"

fun sent :: "chan_op list \<Rightarrow> peer_ID list" where
  "sent [] = []"
| "sent (Send p # xs) = p # sent xs"
| "sent (Close # xs) = sent xs"

subsection \<open>The query runner, from the specification\<close>

text \<open>
  Modelled from the spec: \<^verbatim>\<open>Run\<close>, the query runner behind \<^verbatim>\<open>dht.newQuery\<close>
  (file \<^verbatim>\<open>query.go\<close> of this repository), is not among the sources. Section 4.3 of
  the specification: the candidate set holds each peer once, with a status; a round takes
  up to \<open>\<alpha>\<close> unqueried peers from the frontier, closest first, and asks each; on
  success the peers of the answer that are not yet known join the candidate set as
  unqueried and the asked peer is marked success; on failure it is marked failure and
  nothing joins. The run ends when the frontier is exhausted, when a round has converged,
  or when the deadline or a cancellation fires, and its result is the set of peers marked
  success. An empty seed list fails at once.

  The workers of a round run one after the other, in the order of the frontier. The
  convergence rule, which the specification leaves open (section 9), is a parameter:
  \<open>conv old new\<close> says that the round from \<open>old\<close> to \<open>new\<close> has converged, and
  \<open>no_closer_peer\<close> is the rule of section 4.3. The number of rounds that the deadline
  leaves time for is a parameter too.
\<close>

datatype status = Unqueried | InFlight | QueriedSuccess | QueriedFailure

type_synonym CandidateSet = "(peer_ID \<times> status) list"

definition known :: "CandidateSet \<Rightarrow> peer_ID list" where
  "known cs = map fst cs"


definition mark :: "peer_ID \<Rightarrow> status \<Rightarrow> CandidateSet \<Rightarrow> CandidateSet" where
  "mark p st cs = map (\<lambda>e. if fst e = p then (p, st) else e) cs"

fun merge_peers :: "peer_ID list \<Rightarrow> CandidateSet \<Rightarrow> CandidateSet" where
  "merge_peers [] cs = cs"
| "merge_peers (p # ps) cs =
     merge_peers ps (if p \<in> set (known cs) then cs else cs @ [(p, Unqueried)])"


definition worker ::
  "queryFunc \<Rightarrow> Context \<Rightarrow> peer_ID \<Rightarrow> CandidateSet \<times> run_event list \<Rightarrow>
     CandidateSet \<times> run_event list" where
  "worker f ctx p st =
     (case f ctx p of
        ((res, Some e), es) \<Rightarrow> (mark p QueriedFailure (fst st), snd st @ es)
      | ((res, None), es) \<Rightarrow>
          (merge_peers (case res of None \<Rightarrow> [] | Some r \<Rightarrow> map ID (closerPeers r))
             (mark p QueriedSuccess (fst st)),
           snd st @ es))"






subsection \<open>Observations on a trace\<close>

text \<open>
  Everything that happens in one call: the events of \<^verbatim>\<open>GetClosestPeers\<close> itself,
  followed by those of the goroutine it started.
\<close>

definition all_events :: "IpfsDHT \<Rightarrow> pkg \<Rightarrow> Context \<Rightarrow> string \<Rightarrow> Time \<Rightarrow> Time \<Rightarrow> event list" where
  "all_events dht P ctx key now0 now1 =
     (let c = GetClosestPeers dht P ctx key
      in trace c @ (case spawned c of None \<Rightarrow> [] | Some g \<Rightarrow> go_func dht P g now0 now1))"

fun peer_queries :: "event list \<Rightarrow> (peer_ID \<times> peer_ID) list" where
  "peer_queries [] = []"
| "peer_queries (InRun (Call_findPeerSingle c p k) # es) = (p, k) # peer_queries es"
| "peer_queries (_ # es) = peer_queries es"

fun run_calls :: "event list \<Rightarrow> (Context \<times> peer_ID list) list" where
  "run_calls [] = []"
| "run_calls (Call_Run c ps # es) = (c, ps) # run_calls es"
| "run_calls (_ # es) = run_calls es"

fun nearest_calls :: "event list \<Rightarrow> (ID \<times> int) list" where
  "nearest_calls [] = []"
| "nearest_calls (Call_NearestPeers a n # es) = (a, n) # nearest_calls es"
| "nearest_calls (_ # es) = nearest_calls es"

fun refreshes :: "event list \<Rightarrow> (ID \<times> Time) list" where
  "refreshes [] = []"
| "refreshes (ResetCplRefreshedAtForID a t # es) = (a, t) # refreshes es"
| "refreshes (_ # es) = refreshes es"


definition seeds :: "IpfsDHT \<Rightarrow> pkg \<Rightarrow> string \<Rightarrow> peer_ID list" where
  "seeds dht P key = NearestPeers (routingTable dht) (ConvertKey P key) (AlphaValue P)"

text \<open>The call of the runner at line 112, the goroutine starting at the instant \<open>now0\<close>.\<close>

definition run_of :: "IpfsDHT \<Rightarrow> pkg \<Rightarrow> Context \<Rightarrow> string \<Rightarrow> Time \<Rightarrow>
    (dhtQueryResult option \<times> error option) \<times> run_event list" where
  "run_of dht P ctx key now0 =
     newQuery_Run dht key (queryFn dht P ctx key) (WithTimeout ctx now0 Minute) (seeds dht P key)"

text \<open>The events of a call up to and including line 72.\<close>

definition begin_trace :: "pkg \<Rightarrow> Context \<Rightarrow> string \<Rightarrow> event list" where
  "begin_trace P ctx key =
     (case loggableKey P key of
        None \<Rightarrow> []
      | Some (lk, logged) \<Rightarrow>
          map Log logged @ [EventBegin ctx ''getClosestPeers'' lk,
                            Call_NearestPeers (ConvertKey P key) (AlphaValue P)])"

text \<open>
  What the goroutine sends when no slice expression panics: nothing for a nil result or a
  nil queried set, and otherwise the queried peers by distance, cut to the bucket size.
\<close>

definition delivered :: "IpfsDHT \<Rightarrow> pkg \<Rightarrow> string \<Rightarrow> dhtQueryResult option \<Rightarrow> peer_ID list" where
  "delivered dht P key res =
     (case res of
        None \<Rightarrow> []
      | Some r \<Rightarrow>
          (case queriedSet r of
             None \<Rightarrow> []
           | Some qs \<Rightarrow>
               take (nat (bucketSize dht)) (SortClosestPeers P (Peers qs) (ConvertKey P key))))"

definition init_sys :: "chan_op list \<Rightarrow> chan \<Rightarrow> sys" where
  "init_sys ops c = \<lparr>todo = ops, ch = c, got = []\<rparr>"

text \<open>
  The invariant of a delivery of \<open>ps\<close> over a channel of capacity \<open>n\<close>: received,
  buffered and still to send make up \<open>ps\<close>, and the channel is closed only once the
  producer has nothing left to do.
\<close>

definition delivery_inv :: "nat \<Rightarrow> peer_ID list \<Rightarrow> sys \<Rightarrow> bool" where
  "delivery_inv n ps s \<longleftrightarrow>
     ch_cap (ch s) = n \<and>
     (\<exists>rest. got s @ ch_buf (ch s) @ rest = ps \<and>
        (if ch_closed (ch s) then todo s = [] \<and> rest = []
         else todo s = map Send rest @ [Close]))"

subsection \<open>Concrete inputs\<close>

text \<open>
  A DHT for the concrete runs: two seeds, of which \<open>P1\<close> answers with \<open>P3\<close> and
  \<open>P2\<close> fails; the distances to the key are 10, 20 and 5; the bucket size is 2. Its
  runner queries one peer after the other, breadth first, and reports the peers that
  answered.
\<close>

definition example_pkg :: pkg where
  "example_pkg =
     \<lparr>AlphaValue = 2,
      makechan_max = 17592186044410,
      ConvertKey = (\<lambda>k. 0),
      ConvertPeerID = (\<lambda>p. if p = ''P1'' then 10 else if p = ''P2'' then 20
                             else if p = ''P3'' then 5 else 255),
      PBPeersToPeerInfos = map (\<lambda>m. \<lparr>ID = Id m, Addrs = Addresses m\<rparr>),
      cid_Cast = (\<lambda>s. None),
      cid_String = (\<lambda>s. s),
      base32_EncodeToString = (\<lambda>s. s)\<rparr>"

fun seq_loop ::
  "nat \<Rightarrow> queryFunc \<Rightarrow> Context \<Rightarrow> peer_ID list \<Rightarrow> peer_ID list \<Rightarrow> peer_ID list \<Rightarrow>
     run_event list \<Rightarrow> peer_ID list \<times> run_event list" where
  "seq_loop 0 f ctx work seen queried evs = (queried, evs)"
| "seq_loop (Suc n) f ctx [] seen queried evs = (queried, evs)"
| "seq_loop (Suc n) f ctx (p # work) seen queried evs =
     (case f ctx p of
        ((Some r, _), es) \<Rightarrow>
          (let new = filter (\<lambda>q. q \<notin> set seen) (remdups (map ID (closerPeers r)))
           in seq_loop n f ctx (work @ new) (seen @ new) (queried @ [p]) (evs @ es))
      | ((None, _), es) \<Rightarrow> seq_loop n f ctx work seen queried (evs @ es))"

definition seq_run :: runner where
  "seq_run key f ctx peers =
     (let (queried, evs) = seq_loop 16 f ctx peers peers [] []
      in ((Some \<lparr>closerPeers = [], queriedSet = Some queried\<rparr>, None), evs))"

definition example_dht :: IpfsDHT where
  "example_dht =
     \<lparr>routingTable = \<lparr>NearestPeers = (\<lambda>a n. take (nat n) [''P1'', ''P2''])\<rparr>,
      bucketSize = 2,
      findPeerSingle = (\<lambda>ctx p key.
         if p = ''P1'' then Inr \<lparr>CloserPeers = [\<lparr>Id = ''P3'', Addresses = []\<rparr>]\<rparr>
         else if p = ''P2'' then Inl (ErrRPC ''no answer'')
         else Inr \<lparr>CloserPeers = []\<rparr>),
      newQuery_Run = seq_run\<rparr>"

text \<open>
  The same DHT with a runner that gives up at once: it has asked nobody, and returns an
  empty queried set together with the error of the deadline.
\<close>

definition timeout_dht :: IpfsDHT where
  "timeout_dht =
     example_dht\<lparr>newQuery_Run := (\<lambda>key f ctx peers.
        ((Some \<lparr>closerPeers = [], queriedSet = Some []\<rparr>, Some DeadlineExceeded), []))\<rparr>"

text \<open>A DHT with four peers in its routing table and a bucket size of 20.\<close>

definition wide_dht :: IpfsDHT where
  "wide_dht =
     example_dht\<lparr>routingTable := \<lparr>NearestPeers = (\<lambda>a n. take (nat n) [''P1'', ''P2'', ''P3'', ''P4''])\<rparr>,
                 bucketSize := 20\<rparr>"

text \<open>A DHT none of whose peers answers.\<close>

definition deaf_dht :: IpfsDHT where
  "deaf_dht = example_dht\<lparr>findPeerSingle := (\<lambda>ctx p key. Inl (ErrRPC ''no answer''))\<rparr>"


section \<open>Proofs\<close>

subsection \<open>The formatter\<close>

lemma IndexByte_neg_iff: "IndexByte s c < 0 \<longleftrightarrow> c \<notin> set s"
  by (simp add: IndexByte_def)

lemma IndexByte_less: "c \<in> set s \<Longrightarrow> IndexByte s c < int (length s)"
proof -
  assume "c \<in> set s"
  then have "length (takeWhile (\<lambda>x. x \<noteq> c) s) < length s"
    by (induction s) auto
  with \<open>c \<in> set s\<close> show ?thesis by (simp add: IndexByte_def)
qed

lemma IndexByte_nonneg: "c \<in> set s \<Longrightarrow> 0 \<le> IndexByte s c"
  by (simp add: IndexByte_def)

lemma tryFormatLoggableKey_path:
  assumes "k \<noteq> []" "hd k = CHR ''/''" "CHR ''/'' \<in> set (tl k)"
  shows "\<exists>s. tryFormatLoggableKey P k = Some (s, None)"
proof -
  let ?e = "IndexByte (drop 1 k) (CHR ''/'')"
  from assms(3) have in_set: "CHR ''/'' \<in> set (drop 1 k)" by (simp add: drop_Suc)
  have lo: "0 \<le> ?e" using in_set by (rule IndexByte_nonneg)
  have "?e < int (length (drop 1 k))" using in_set by (rule IndexByte_less)
  then have hi: "?e + 2 \<le> int (length k)" using assms(1) by (cases k) auto
  have s1: "go_slice k 1 (?e + 1) \<noteq> None" using lo hi by (simp add: go_slice_def)
  have s2: "go_slice k (?e + 2) (int (length k)) \<noteq> None" using lo hi by (simp add: go_slice_def)
  from s1 s2 lo assms(1,2) show ?thesis
    by (auto simp: tryFormatLoggableKey_def Let_def)
qed

lemma tryFormatLoggableKey_cases:
  "tryFormatLoggableKey P k =
     (if k = [] then Some ('''', Some ErrKeyEmpty)
      else if hd k = CHR ''/'' \<and> CHR ''/'' \<notin> set (tl k) then Some (k, Some (ErrNotAPath k))
      else Some (fst (the (tryFormatLoggableKey P k)), None))"
proof (cases "k = []")
  case True
  then show ?thesis by (simp add: tryFormatLoggableKey_def)
next
  case ne: False
  show ?thesis
  proof (cases "hd k = CHR ''/''")
    case False
    with ne show ?thesis by (simp add: tryFormatLoggableKey_def)
  next
    case slash: True
    show ?thesis
    proof (cases "CHR ''/'' \<in> set (tl k)")
      case True
      with ne slash obtain s where "tryFormatLoggableKey P k = Some (s, None)"
        using tryFormatLoggableKey_path by blast
      with ne slash True show ?thesis by simp
    next
      case False
      then have "IndexByte (drop 1 k) (CHR ''/'') < 0"
        by (simp add: IndexByte_neg_iff drop_Suc)
      with ne slash False show ?thesis
        by (simp add: tryFormatLoggableKey_def Let_def)
    qed
  qed
qed

lemma loggableKey_total: "\<exists>lk l. loggableKey P k = Some (lk, l)"
proof -
  have "\<exists>s e. tryFormatLoggableKey P k = Some (s, e)"
    by (subst tryFormatLoggableKey_cases) simp
  then obtain s e where "tryFormatLoggableKey P k = Some (s, e)" by blast
  then show ?thesis by (cases e) (simp_all add: loggableKey_def)
qed

text \<open>
  C8. \<^verbatim>\<open>tryFormatLoggableKey k\<close> returns an error exactly when \<open>k\<close> is empty, or
  \<open>k\<close> begins with a slash and has no second slash; in the second case the key it
  returns beside the error is \<open>k\<close> itself. \<^verbatim>\<open>loggableKey\<close> never fails: its map
  has an entry under \<open>key\<close>, which is the formatted key when formatting succeeded and
  the key as given when it did not.
\<close>

theorem C8_loggable_key_errors:
  "\<exists>s e. tryFormatLoggableKey P k = Some (s, e) \<and>
     (e \<noteq> None \<longleftrightarrow> k = [] \<or> (hd k = CHR ''/'' \<and> CHR ''/'' \<notin> set (tl k))) \<and>
     (k \<noteq> [] \<and> e \<noteq> None \<longrightarrow> s = k) \<and>
     (\<exists>l. loggableKey P k = Some ([(''key'', if e = None then s else k)], l)) \<and>
     map_of (fst (the (loggableKey P k))) ''key'' = Some (if e = None then s else k)"
proof -
  have "\<exists>s e. tryFormatLoggableKey P k = Some (s, e)"
    by (subst tryFormatLoggableKey_cases) simp
  then obtain s e where se: "tryFormatLoggableKey P k = Some (s, e)"
    by blast
  have iff: "e \<noteq> None \<longleftrightarrow> k = [] \<or> (hd k = CHR ''/'' \<and> CHR ''/'' \<notin> set (tl k))"
    using se by (subst (asm) tryFormatLoggableKey_cases) (auto split: if_splits)
  have orig: "k \<noteq> [] \<and> e \<noteq> None \<longrightarrow> s = k"
    using se by (subst (asm) tryFormatLoggableKey_cases) (auto split: if_splits)
  have lk: "loggableKey P k =
      Some ([(''key'', if e = None then s else k)], case e of None \<Rightarrow> [] | Some err \<Rightarrow> [Debug err])"
    using se by (cases e) (simp_all add: loggableKey_def)
  from se iff orig lk show ?thesis by auto
qed

theorem C8_loggable_key_errors_witness:
  "''/abc'' \<noteq> [] \<and>
   tryFormatLoggableKey example_pkg ''/abc'' = Some (''/abc'', Some (ErrNotAPath ''/abc'')) \<and>
   (\<exists>l. loggableKey example_pkg ''/abc'' = Some ([(''key'', ''/abc'')], l))"
  using C8_loggable_key_errors [of example_pkg "''/abc''"]
  by (subst (asm) tryFormatLoggableKey_cases, subst tryFormatLoggableKey_cases) auto

subsection \<open>The call\<close>

lemma GetClosestPeers_eq:
  "GetClosestPeers dht P ctx key =
     (if seeds dht P key = []
      then \<lparr>returned = Some (None, Some ErrLookupFailure), trace = begin_trace P ctx key,
            spawned = None\<rparr>
      else if bucketSize dht < 0 \<or> makechan_max P < bucketSize dht
      then \<lparr>returned = None, trace = begin_trace P ctx key @ [Panic], spawned = None\<rparr>
      else \<lparr>returned = Some (Some \<lparr>ch_cap = nat (bucketSize dht), ch_buf = [], ch_closed = False\<rparr>, None),
            trace = begin_trace P ctx key,
            spawned = Some \<lparr>g_ctx = ctx, g_key = key, g_tablepeers = seeds dht P key,
                            g_query = queryFn dht P ctx key,
                            g_out = \<lparr>ch_cap = nat (bucketSize dht), ch_buf = [], ch_closed = False\<rparr>\<rparr>\<rparr>)"
proof -
  obtain lk l where "loggableKey P key = Some (lk, l)"
    using loggableKey_total by blast
  then show ?thesis
    by (simp add: GetClosestPeers_def begin_trace_def seeds_def make_chan_def Let_def)
qed

lemma peer_queries_map_Log [simp]: "peer_queries (map Log l @ es) = peer_queries es"
  by (induction l) simp_all

lemma run_calls_map_Log [simp]: "run_calls (map Log l @ es) = run_calls es"
  by (induction l) simp_all

lemma nearest_calls_map_Log [simp]: "nearest_calls (map Log l @ es) = nearest_calls es"
  by (induction l) simp_all

lemma begin_trace_quiet:
  "peer_queries (begin_trace P ctx key) = [] \<and> run_calls (begin_trace P ctx key) = []"
  by (simp add: begin_trace_def split: option.splits)

lemma nearest_calls_begin_trace:
  "nearest_calls (begin_trace P ctx key) = [(ConvertKey P key, AlphaValue P)]"
  using loggableKey_total [of P key] by (auto simp: begin_trace_def)

text \<open>
  C1. \<^verbatim>\<open>GetClosestPeers\<close> returns an error if and only if the seed list that
  \<^verbatim>\<open>NearestPeers\<close> gives for the key is empty. It then returns
  \<^verbatim>\<open>kb.ErrLookupFailure\<close> and no channel, starts no goroutine, and the whole call
  runs no query and asks no peer.
\<close>

theorem C1_error_iff_no_seeds:
  "((\<exists>c e. returned (GetClosestPeers dht P ctx key) = Some (c, Some e)) \<longleftrightarrow>
      NearestPeers (routingTable dht) (ConvertKey P key) (AlphaValue P) = []) \<and>
   (NearestPeers (routingTable dht) (ConvertKey P key) (AlphaValue P) = [] \<longrightarrow>
      returned (GetClosestPeers dht P ctx key) = Some (None, Some ErrLookupFailure) \<and>
      spawned (GetClosestPeers dht P ctx key) = None \<and>
      peer_queries (all_events dht P ctx key now0 now1) = [] \<and>
      run_calls (all_events dht P ctx key now0 now1) = [])"
  unfolding all_events_def Let_def
  by (simp add: GetClosestPeers_eq begin_trace_quiet seeds_def [symmetric])

theorem C1_error_iff_no_seeds_witness:
  "NearestPeers (routingTable (example_dht\<lparr>routingTable := \<lparr>NearestPeers = (\<lambda>a n. [])\<rparr>\<rparr>))
     (ConvertKey example_pkg ''K'') (AlphaValue example_pkg) = [] \<and>
   returned (GetClosestPeers (example_dht\<lparr>routingTable := \<lparr>NearestPeers = (\<lambda>a n. [])\<rparr>\<rparr>)
     example_pkg (Caller None None) ''K'') = Some (None, Some ErrLookupFailure) \<and>
   peer_queries (all_events (example_dht\<lparr>routingTable := \<lparr>NearestPeers = (\<lambda>a n. [])\<rparr>\<rparr>)
     example_pkg (Caller None None) ''K'' 100 200) = []"
  using C1_error_iff_no_seeds [of "example_dht\<lparr>routingTable := \<lparr>NearestPeers = (\<lambda>a n. [])\<rparr>\<rparr>"
      example_pkg "Caller None None" "''K''" 100 200]
  by (simp add: example_dht_def)

subsection \<open>The goroutine\<close>

lemma truncate_sorted_eq: "0 \<le> n \<Longrightarrow> truncate_sorted xs n = Some (take (nat n) xs)"
  by (simp add: truncate_sorted_def go_slice_def Let_def)

lemma chan_ops_append: "chan_ops (xs @ ys) = chan_ops xs @ chan_ops ys"
  by (induction xs rule: chan_ops.induct) simp_all

lemma chan_ops_InRun: "chan_ops (map InRun l) = []"
  by (induction l) simp_all

lemma chan_ops_Send: "chan_ops (map (\<lambda>p. Chan (Send p)) ps) = map Send ps"
  by (induction ps) simp_all

lemma refreshes_append: "refreshes (xs @ ys) = refreshes xs @ refreshes ys"
  by (induction xs rule: refreshes.induct) simp_all

lemma refreshes_InRun: "refreshes (map InRun l) = []"
  by (induction l) simp_all

lemma refreshes_Send: "refreshes (map (\<lambda>p. Chan (Send p)) ps) = []"
  by (induction ps) simp_all

lemma sent_Send: "sent (map Send ps @ xs) = ps @ sent xs"
  by (induction ps) simp_all

lemma chan_ops_finalize:
  "0 \<le> bucketSize dht \<Longrightarrow>
   chan_ops (finalize dht P key now1 res) = map Send (delivered dht P key res)"
  by (simp add: finalize_def delivered_def truncate_sorted_eq chan_ops_Send
      split: option.splits)

lemma refreshes_finalize:
  "0 \<le> bucketSize dht \<Longrightarrow>
   refreshes (finalize dht P key now1 res) =
     (case res of
        None \<Rightarrow> []
      | Some r \<Rightarrow> (case queriedSet r of None \<Rightarrow> [] | Some qs \<Rightarrow> [(ConvertKey P key, now1)]))"
  by (simp add: finalize_def truncate_sorted_eq refreshes_Send split: option.splits)

lemma go_func_eq:
  assumes "newQuery_Run dht (g_key g) (g_query g) (WithTimeout (g_ctx g) now0 Minute)
             (g_tablepeers g) = ((res, err), happened)"
  shows "go_func dht P g now0 now1 =
           Call_Run (WithTimeout (g_ctx g) now0 Minute) (g_tablepeers g) # map InRun happened @
           (case err of None \<Rightarrow> [] | Some e \<Rightarrow> [Debugf_run e]) @
           finalize dht P (g_key g) now1 res @ [Cancel, EventDone, Chan Close]"
  using assms by (simp add: go_func_def Let_def)

lemma chan_ops_go_func:
  assumes "newQuery_Run dht (g_key g) (g_query g) (WithTimeout (g_ctx g) now0 Minute)
             (g_tablepeers g) = ((res, err), happened)"
    and "0 \<le> bucketSize dht"
  shows "chan_ops (go_func dht P g now0 now1) =
           map Send (delivered dht P (g_key g) res) @ [Close]"
  by (cases err)
    (simp_all add: go_func_eq [OF assms(1)] chan_ops_append chan_ops_InRun
      chan_ops_finalize [OF assms(2)])

lemma refreshes_go_func:
  assumes "newQuery_Run dht (g_key g) (g_query g) (WithTimeout (g_ctx g) now0 Minute)
             (g_tablepeers g) = ((res, err), happened)"
    and "0 \<le> bucketSize dht"
  shows "refreshes (go_func dht P g now0 now1) =
     (case res of
        None \<Rightarrow> []
      | Some r \<Rightarrow> (case queriedSet r of None \<Rightarrow> [] | Some qs \<Rightarrow> [(ConvertKey P (g_key g), now1)]))"
  by (cases err)
    (simp_all add: go_func_eq [OF assms(1)] refreshes_append refreshes_InRun
      refreshes_finalize [OF assms(2)])

lemma length_delivered: "0 \<le> bucketSize dht \<Longrightarrow> int (length (delivered dht P key res)) \<le> bucketSize dht"
  by (auto simp: delivered_def split: option.splits)

lemma sorted_delivered:
  "sorted (map (distance P (ConvertKey P key)) (delivered dht P key res))"
  by (simp add: delivered_def SortClosestPeers_def take_map [symmetric] sorted_wrt_take
      split: option.splits)

lemma distinct_delivered:
  "(\<And>r qs. res = Some r \<Longrightarrow> queriedSet r = Some qs \<Longrightarrow> distinct (Peers qs)) \<Longrightarrow>
   distinct (delivered dht P key res)"
  by (auto simp: delivered_def SortClosestPeers_def split: option.splits)

lemma run_ops_Send:
  "\<not> ch_closed c \<Longrightarrow> length (ch_buf c) + length ps \<le> ch_cap c \<Longrightarrow>
   run_ops (map Send ps @ xs) c = run_ops xs (c\<lparr>ch_buf := ch_buf c @ ps\<rparr>)"
  by (induction ps arbitrary: c) (simp_all add: chan_send_def)

lemma run_ops_deliver:
  "\<not> ch_closed c \<Longrightarrow> length (ch_buf c) + length ps \<le> ch_cap c \<Longrightarrow>
   run_ops (map Send ps @ [Close]) c = Ok (c\<lparr>ch_buf := ch_buf c @ ps, ch_closed := True\<rparr>)"
  by (simp add: run_ops_Send chan_close_def)

subsection \<open>Producer and consumer\<close>

lemma chan_recv_Recv:
  "chan_recv c = Recv p c' \<Longrightarrow>
   ch_buf c = p # ch_buf c' \<and> ch_closed c' = ch_closed c \<and> ch_cap c' = ch_cap c"
  by (cases "ch_buf c") (auto simp: chan_recv_def split: if_splits)

lemma delivery_inv_init:
  "delivery_inv n ps (init_sys (map Send ps @ [Close]) \<lparr>ch_cap = n, ch_buf = [], ch_closed = False\<rparr>)"
  by (simp add: delivery_inv_def init_sys_def)

lemma delivery_inv_step:
  assumes "delivery_inv n ps s" and "step s t"
  shows "delivery_inv n ps t"
  using assms(2)
proof cases
  case (produce x xs c')
  from assms(1) obtain rest where cap: "ch_cap (ch s) = n"
    and all: "got s @ ch_buf (ch s) @ rest = ps"
    and st: "if ch_closed (ch s) then todo s = [] \<and> rest = []
             else todo s = map Send rest @ [Close]"
    unfolding delivery_inv_def by blast
  from produce(2) st have opn: "\<not> ch_closed (ch s)" by auto
  with st have td: "todo s = map Send rest @ [Close]" by simp
  show ?thesis
  proof (cases rest)
    case Nil
    with td produce(2) have "x = Close" "xs = []" by simp_all
    with produce(3) opn have "c' = (ch s)\<lparr>ch_closed := True\<rparr>"
      by (simp add: chan_close_def)
    with produce(1) cap all Nil \<open>xs = []\<close> show ?thesis
      by (simp add: delivery_inv_def)
  next
    case (Cons r rs)
    with td produce(2) have x: "x = Send r" and xs: "xs = map Send rs @ [Close]" by simp_all
    from produce(3) x opn have c': "c' = (ch s)\<lparr>ch_buf := ch_buf (ch s) @ [r]\<rparr>"
      by (simp add: chan_send_def split: if_splits)
    have "got s @ (ch_buf (ch s) @ [r]) @ rs = ps" using all Cons by simp
    with produce(1) cap c' xs opn show ?thesis
      unfolding delivery_inv_def by (intro conjI exI [of _ rs]) simp_all
  qed
next
  case (consume p c')
  from assms(1) obtain rest where cap: "ch_cap (ch s) = n"
    and all: "got s @ ch_buf (ch s) @ rest = ps"
    and st: "if ch_closed (ch s) then todo s = [] \<and> rest = []
             else todo s = map Send rest @ [Close]"
    unfolding delivery_inv_def by blast
  from consume(2) have buf: "ch_buf (ch s) = p # ch_buf c'"
    and same: "ch_closed c' = ch_closed (ch s)" "ch_cap c' = ch_cap (ch s)"
    by (blast dest: chan_recv_Recv)+
  have "(got s @ [p]) @ ch_buf c' @ rest = ps" using all buf by simp
  with same show ?thesis
    using consume(1) cap st unfolding delivery_inv_def
    by (intro conjI exI [of _ rest]) simp_all
qed

lemma delivery_inv_reach:
  "reach s t \<Longrightarrow> delivery_inv n ps s \<Longrightarrow> delivery_inv n ps t"
  by (induction rule: reach.induct) (auto intro: delivery_inv_step)

lemma delivery_inv_enabled:
  assumes "delivery_inv n ps s" and "length ps \<le> n" and "todo s \<noteq> []"
  shows "\<exists>c'. chan_exec (hd (todo s)) (ch s) = Ok c'"
proof -
  from assms(1) obtain rest where cap: "ch_cap (ch s) = n"
    and all: "got s @ ch_buf (ch s) @ rest = ps"
    and st: "if ch_closed (ch s) then todo s = [] \<and> rest = []
             else todo s = map Send rest @ [Close]"
    unfolding delivery_inv_def by blast
  from st assms(3) have opn: "\<not> ch_closed (ch s)" by auto
  with st have td: "todo s = map Send rest @ [Close]" by simp
  show ?thesis
  proof (cases rest)
    case Nil
    with td opn show ?thesis by (simp add: chan_close_def)
  next
    case (Cons r rs)
    from all have "length (got s) + length (ch_buf (ch s)) + length rest = length ps"
      by (metis length_append add.assoc)
    with Cons assms(2) cap have "length (ch_buf (ch s)) < ch_cap (ch s)" by simp
    with td Cons opn show ?thesis by (simp add: chan_send_def)
  qed
qed

lemma delivery_inv_final:
  assumes "delivery_inv n ps s" and "todo s = []" and "ch_buf (ch s) = []"
  shows "got s = ps \<and> ch_closed (ch s)"
  using assms unfolding delivery_inv_def by (auto split: if_splits)

lemma delivery_inv_prefix:
  assumes "delivery_inv n ps s"
  shows "\<exists>rest. got s @ rest = ps"
  using assms unfolding delivery_inv_def by auto

subsection \<open>The claims about the lookup\<close>

lemma drain_closed:
  "ch_closed c \<Longrightarrow> drain c = Some (ch_buf c, c\<lparr>ch_buf := []\<rparr>)"
proof (induction "ch_buf c" arbitrary: c)
  case Nil
  then show ?case by (subst drain.simps) (simp add: chan_recv_def)
next
  case (Cons x xs)
  from Cons(2) [symmetric] have "chan_recv c = Recv x (c\<lparr>ch_buf := xs\<rparr>)"
    by (simp add: chan_recv_def)
  moreover have "drain (c\<lparr>ch_buf := xs\<rparr>) = Some (xs, c\<lparr>ch_buf := []\<rparr>)"
    using Cons(1) [of "c\<lparr>ch_buf := xs\<rparr>"] Cons(3) by simp
  ultimately show ?case using Cons(2) [symmetric] by (subst drain.simps) simp
qed

lemma spawned_Some:
  "spawned (GetClosestPeers dht P ctx key) = Some g \<longleftrightarrow>
     seeds dht P key \<noteq> [] \<and> 0 \<le> bucketSize dht \<and> bucketSize dht \<le> makechan_max P \<and>
     g = \<lparr>g_ctx = ctx, g_key = key, g_tablepeers = seeds dht P key,
          g_query = queryFn dht P ctx key,
          g_out = \<lparr>ch_cap = nat (bucketSize dht), ch_buf = [], ch_closed = False\<rparr>\<rparr>"
  by (auto simp: GetClosestPeers_eq)

lemma spawned_run:
  assumes "spawned (GetClosestPeers dht P ctx key) = Some g"
    and "run_of dht P ctx key now0 = ((res, err), happened)"
  shows "newQuery_Run dht (g_key g) (g_query g) (WithTimeout (g_ctx g) now0 Minute)
           (g_tablepeers g) = ((res, err), happened)"
  using assms by (simp add: spawned_Some run_of_def)

lemma spawned_ops:
  assumes "spawned (GetClosestPeers dht P ctx key) = Some g"
    and "run_of dht P ctx key now0 = ((res, err), happened)"
  shows "chan_ops (go_func dht P g now0 now1) = map Send (delivered dht P key res) @ [Close]"
proof -
  from assms(1) have "0 \<le> bucketSize dht" and "g_key g = key"
    by (simp_all add: spawned_Some)
  with chan_ops_go_func [OF spawned_run [OF assms]] show ?thesis by simp
qed

lemma spawned_out:
  assumes "spawned (GetClosestPeers dht P ctx key) = Some g"
  shows "g_out g = \<lparr>ch_cap = nat (bucketSize dht), ch_buf = [], ch_closed = False\<rparr>"
    and "0 \<le> bucketSize dht"
  using assms by (simp_all add: spawned_Some)

lemma spawned_run_ops:
  assumes "spawned (GetClosestPeers dht P ctx key) = Some g"
    and "run_of dht P ctx key now0 = ((res, err), happened)"
  shows "run_ops (chan_ops (go_func dht P g now0 now1)) (g_out g) =
           Ok \<lparr>ch_cap = nat (bucketSize dht), ch_buf = delivered dht P key res, ch_closed = True\<rparr>"
proof -
  have "length (delivered dht P key res) \<le> nat (bucketSize dht)"
    using length_delivered [OF spawned_out(2) [OF assms(1)], of P key res] by simp
  then show ?thesis
    by (simp add: spawned_ops [OF assms] spawned_out(1) [OF assms(1)] run_ops_deliver)
qed

text \<open>
  C2. When the run returns a result whose queried set is not nil, the peers sent on the
  channel are the queried set sorted by ascending XOR distance to the key and cut to
  the bucket size: the sorted list has the same elements as the queried set, the sequence
  sent has at most \<open>bucketSize\<close> entries and no distance inversion, and it is what a
  consumer ranging over the channel receives.
\<close>

theorem C2_emitted_sorted_truncated:
  assumes "spawned (GetClosestPeers dht P ctx key) = Some g"
    and "run_of dht P ctx key now0 = ((Some r, err), happened)"
    and "queriedSet r = Some qs"
  shows "sent (chan_ops (go_func dht P g now0 now1)) =
           take (nat (bucketSize dht)) (SortClosestPeers P (Peers qs) (ConvertKey P key)) \<and>
         mset (SortClosestPeers P (Peers qs) (ConvertKey P key)) = mset (Peers qs) \<and>
         sorted (map (distance P (ConvertKey P key))
           (SortClosestPeers P (Peers qs) (ConvertKey P key))) \<and>
         int (length (sent (chan_ops (go_func dht P g now0 now1)))) \<le> bucketSize dht \<and>
         sorted (map (distance P (ConvertKey P key))
           (sent (chan_ops (go_func dht P g now0 now1)))) \<and>
         (\<exists>c c'. run_ops (chan_ops (go_func dht P g now0 now1)) (g_out g) = Ok c \<and>
            drain c = Some (sent (chan_ops (go_func dht P g now0 now1)), c'))"
proof -
  let ?d = "delivered dht P key (Some r)"
  have ops: "chan_ops (go_func dht P g now0 now1) = map Send ?d @ [Close]"
    by (rule spawned_ops [OF assms(1,2)])
  then have snt: "sent (chan_ops (go_func dht P g now0 now1)) = ?d"
    by (simp add: sent_Send)
  have d: "?d = take (nat (bucketSize dht)) (SortClosestPeers P (Peers qs) (ConvertKey P key))"
    using assms(3) by (simp add: delivered_def)
  have len: "int (length ?d) \<le> bucketSize dht"
    by (rule length_delivered [OF spawned_out(2) [OF assms(1)]])
  have srt: "sorted (map (distance P (ConvertKey P key)) ?d)"
    by (rule sorted_delivered)
  have "drain \<lparr>ch_cap = nat (bucketSize dht), ch_buf = ?d, ch_closed = True\<rparr> =
          Some (?d, \<lparr>ch_cap = nat (bucketSize dht), ch_buf = [], ch_closed = True\<rparr>)"
    by (simp add: drain_closed)
  with spawned_run_ops [OF assms(1,2), of now1]
  have rcv: "\<exists>c c'. run_ops (chan_ops (go_func dht P g now0 now1)) (g_out g) = Ok c \<and>
      drain c = Some (?d, c')"
    by simp
  have "mset (SortClosestPeers P (Peers qs) (ConvertKey P key)) = mset (Peers qs)"
    and "sorted (map (distance P (ConvertKey P key))
           (SortClosestPeers P (Peers qs) (ConvertKey P key)))"
    by (simp_all add: SortClosestPeers_def)
  with snt d len srt rcv show ?thesis by simp
qed

theorem C2_emitted_sorted_truncated_witness:
  "spawned (GetClosestPeers example_dht example_pkg (Caller None None) ''K'') \<noteq> None \<and>
   fst (run_of example_dht example_pkg (Caller None None) ''K'' 100) =
     (Some \<lparr>closerPeers = [], queriedSet = Some [''P1'', ''P3'']\<rparr>, None) \<and>
   sent (chan_ops (go_func example_dht example_pkg
     (the (spawned (GetClosestPeers example_dht example_pkg (Caller None None) ''K''))) 100 200)) =
     [''P3'', ''P1'']"
proof -
  let ?G = "GetClosestPeers example_dht example_pkg (Caller None None) ''K''"
  have sp: "spawned ?G \<noteq> None" by code_simp
  then have h1: "spawned ?G = Some (the (spawned ?G))" by simp
  have run: "fst (run_of example_dht example_pkg (Caller None None) ''K'' 100) =
     (Some \<lparr>closerPeers = [], queriedSet = Some [''P1'', ''P3'']\<rparr>, None)"
    by code_simp
  then have h2: "run_of example_dht example_pkg (Caller None None) ''K'' 100 =
     ((Some \<lparr>closerPeers = [], queriedSet = Some [''P1'', ''P3'']\<rparr>, None),
      snd (run_of example_dht example_pkg (Caller None None) ''K'' 100))"
    by (metis prod.collapse)
  have h3: "queriedSet \<lparr>closerPeers = [], queriedSet = Some [''P1'', ''P3'']\<rparr> = Some [''P1'', ''P3'']"
    by simp
  have ev: "take (nat (bucketSize example_dht))
      (SortClosestPeers example_pkg (Peers [''P1'', ''P3'']) (ConvertKey example_pkg ''K'')) =
      [''P3'', ''P1'']"
    by code_simp
  from C2_emitted_sorted_truncated [OF h1 h2 h3, of 200] sp run ev show ?thesis by simp
qed

text \<open>
  C6. No peer appears twice in the sequence sent on the channel, provided the queried set
  holds no peer twice: sorting and truncating keep the peers distinct.
\<close>

theorem C6_no_peer_twice:
  assumes "spawned (GetClosestPeers dht P ctx key) = Some g"
    and "run_of dht P ctx key now0 = ((res, err), happened)"
    and "\<And>r qs. res = Some r \<Longrightarrow> queriedSet r = Some qs \<Longrightarrow> distinct (Peers qs)"
  shows "distinct (sent (chan_ops (go_func dht P g now0 now1))) \<and>
         (\<exists>c ps c'. run_ops (chan_ops (go_func dht P g now0 now1)) (g_out g) = Ok c \<and>
            drain c = Some (ps, c') \<and> distinct ps)"
proof -
  let ?d = "delivered dht P key res"
  have "chan_ops (go_func dht P g now0 now1) = map Send ?d @ [Close]"
    by (rule spawned_ops [OF assms(1,2)])
  then have snt: "sent (chan_ops (go_func dht P g now0 now1)) = ?d"
    by (simp add: sent_Send)
  have dist: "distinct ?d"
    using assms(3) by (rule distinct_delivered)
  have "drain \<lparr>ch_cap = nat (bucketSize dht), ch_buf = ?d, ch_closed = True\<rparr> =
          Some (?d, \<lparr>ch_cap = nat (bucketSize dht), ch_buf = [], ch_closed = True\<rparr>)"
    by (simp add: drain_closed)
  with spawned_run_ops [OF assms(1,2), of now1] dist
  have "\<exists>c ps c'. run_ops (chan_ops (go_func dht P g now0 now1)) (g_out g) = Ok c \<and>
      drain c = Some (ps, c') \<and> distinct ps"
    by simp
  with snt dist show ?thesis by simp
qed

theorem C6_no_peer_twice_witness:
  "spawned (GetClosestPeers example_dht example_pkg (Caller None None) ''K'') \<noteq> None \<and>
   fst (run_of example_dht example_pkg (Caller None None) ''K'' 100) =
     (Some \<lparr>closerPeers = [], queriedSet = Some [''P1'', ''P3'']\<rparr>, None) \<and>
   distinct (Peers [''P1'', ''P3'']) \<and>
   distinct (sent (chan_ops (go_func example_dht example_pkg
     (the (spawned (GetClosestPeers example_dht example_pkg (Caller None None) ''K''))) 100 200)))"
proof -
  let ?G = "GetClosestPeers example_dht example_pkg (Caller None None) ''K''"
  let ?r = "\<lparr>closerPeers = [], queriedSet = Some [''P1'', ''P3'']\<rparr>"
  have sp: "spawned ?G \<noteq> None" by code_simp
  then have h1: "spawned ?G = Some (the (spawned ?G))" by simp
  have run: "fst (run_of example_dht example_pkg (Caller None None) ''K'' 100) = (Some ?r, None)"
    by code_simp
  then have h2: "run_of example_dht example_pkg (Caller None None) ''K'' 100 =
     ((Some ?r, None), snd (run_of example_dht example_pkg (Caller None None) ''K'' 100))"
    by (metis prod.collapse)
  have d: "distinct (Peers [''P1'', ''P3''])" by (simp add: Peers_def)
  then have h3: "\<And>r qs. Some ?r = Some r \<Longrightarrow> queriedSet r = Some qs \<Longrightarrow> distinct (Peers qs)"
    by auto
  from C6_no_peer_twice [OF h1 h2 h3, where ?now1.0 = 200] sp run d show ?thesis by simp
qed

lemma nearest_calls_append: "nearest_calls (xs @ ys) = nearest_calls xs @ nearest_calls ys"
  by (induction xs rule: nearest_calls.induct) simp_all

lemma nearest_calls_InRun: "nearest_calls (map InRun l) = []"
  by (induction l) simp_all

lemma nearest_calls_Send: "nearest_calls (map (\<lambda>p. Chan (Send p)) ps) = []"
  by (induction ps) simp_all

lemma nearest_calls_finalize: "nearest_calls (finalize dht P key now1 res) = []"
  by (simp add: finalize_def nearest_calls_Send split: option.splits)

lemma run_calls_append: "run_calls (xs @ ys) = run_calls xs @ run_calls ys"
  by (induction xs rule: run_calls.induct) simp_all

lemma run_calls_InRun: "run_calls (map InRun l) = []"
  by (induction l) simp_all

lemma run_calls_Send: "run_calls (map (\<lambda>p. Chan (Send p)) ps) = []"
  by (induction ps) simp_all

lemma run_calls_finalize: "run_calls (finalize dht P key now1 res) = []"
  by (simp add: finalize_def run_calls_Send split: option.splits)

lemma nearest_calls_go_func: "nearest_calls (go_func dht P g now0 now1) = []"
proof -
  obtain res err happened where
    "newQuery_Run dht (g_key g) (g_query g) (WithTimeout (g_ctx g) now0 Minute)
       (g_tablepeers g) = ((res, err), happened)"
    by (metis prod.collapse)
  then show ?thesis
    by (cases err)
      (simp_all add: go_func_eq nearest_calls_append nearest_calls_InRun nearest_calls_finalize)
qed

lemma run_calls_go_func:
  "run_calls (go_func dht P g now0 now1) = [(WithTimeout (g_ctx g) now0 Minute, g_tablepeers g)]"
proof -
  obtain res err happened where
    "newQuery_Run dht (g_key g) (g_query g) (WithTimeout (g_ctx g) now0 Minute)
       (g_tablepeers g) = ((res, err), happened)"
    by (metis prod.collapse)
  then show ?thesis
    by (cases err)
      (simp_all add: go_func_eq run_calls_append run_calls_InRun run_calls_finalize)
qed

lemma all_events_eq:
  "all_events dht P ctx key now0 now1 =
     (if seeds dht P key = [] then begin_trace P ctx key
      else if bucketSize dht < 0 \<or> makechan_max P < bucketSize dht
      then begin_trace P ctx key @ [Panic]
      else begin_trace P ctx key @
        go_func dht P \<lparr>g_ctx = ctx, g_key = key, g_tablepeers = seeds dht P key,
          g_query = queryFn dht P ctx key,
          g_out = \<lparr>ch_cap = nat (bucketSize dht), ch_buf = [], ch_closed = False\<rparr>\<rparr> now0 now1)"
  by (simp add: all_events_def GetClosestPeers_eq)

text \<open>
  C10. Every call asks the routing table exactly once, for the address of the key and for
  \<open>AlphaValue\<close> peers, whatever the bucket size is; what the table answers is the seed
  list given to the runner. So when the table honours the count it is asked for, the
  runner starts from at most \<open>AlphaValue\<close> peers.
\<close>

theorem C10_seeds_are_alpha_nearest:
  "nearest_calls (all_events dht P ctx key now0 now1) = [(ConvertKey P key, AlphaValue P)] \<and>
   run_calls (all_events dht P ctx key now0 now1) =
     (if NearestPeers (routingTable dht) (ConvertKey P key) (AlphaValue P) = [] \<or>
         bucketSize dht < 0 \<or> makechan_max P < bucketSize dht
      then []
      else [(WithTimeout ctx now0 Minute,
             NearestPeers (routingTable dht) (ConvertKey P key) (AlphaValue P))]) \<and>
   ((\<forall>a n. 0 \<le> n \<longrightarrow> int (length (NearestPeers (routingTable dht) a n)) \<le> n) \<and>
    0 \<le> AlphaValue P \<longrightarrow>
      (\<forall>c ps. (c, ps) \<in> set (run_calls (all_events dht P ctx key now0 now1)) \<longrightarrow>
         int (length ps) \<le> AlphaValue P))"
proof -
  have nc: "nearest_calls (all_events dht P ctx key now0 now1) = [(ConvertKey P key, AlphaValue P)]"
    by (simp add: all_events_eq nearest_calls_append nearest_calls_begin_trace
        nearest_calls_go_func)
  have rc: "run_calls (all_events dht P ctx key now0 now1) =
     (if seeds dht P key = [] \<or> bucketSize dht < 0 \<or> makechan_max P < bucketSize dht then []
      else [(WithTimeout ctx now0 Minute, seeds dht P key)])"
    by (simp add: all_events_eq run_calls_append begin_trace_quiet run_calls_go_func)
  from nc rc show ?thesis by (auto simp: seeds_def)
qed

theorem C10_seeds_are_alpha_nearest_witness:
  "0 \<le> AlphaValue example_pkg \<and>
   bucketSize wide_dht = 20 \<and>
   int (length (NearestPeers (routingTable wide_dht) 0 2)) \<le> 2 \<and>
   nearest_calls (all_events wide_dht example_pkg (Caller None None) ''K'' 100 200) = [(0, 2)] \<and>
   run_calls (all_events wide_dht example_pkg (Caller None None) ''K'' 100 200) =
     [(WithDeadline (Caller None None) 60000000100, [''P1'', ''P2''])]"
proof -
  have h: "\<forall>a n. 0 \<le> n \<longrightarrow> int (length (NearestPeers (routingTable wide_dht) a n)) \<le> n"
    by (auto simp: wide_dht_def example_dht_def)
  have a: "0 \<le> AlphaValue example_pkg" by (simp add: example_pkg_def)
  have vals: "NearestPeers (routingTable wide_dht) (ConvertKey example_pkg ''K'')
        (AlphaValue example_pkg) = [''P1'', ''P2'']"
    "ConvertKey example_pkg ''K'' = 0" "AlphaValue example_pkg = 2" "bucketSize wide_dht = 20"
    "makechan_max example_pkg = 17592186044410"
    by (simp_all add: wide_dht_def example_dht_def example_pkg_def)
  from C10_seeds_are_alpha_nearest [of wide_dht example_pkg "Caller None None" "''K''" 100 200]
    h a vals show ?thesis
    by (simp add: WithTimeout_def Minute_def)
qed

lemma spawned_exists:
  assumes "seeds dht P key \<noteq> []" and "0 \<le> bucketSize dht"
    and "bucketSize dht \<le> makechan_max P"
  shows "\<exists>g. spawned (GetClosestPeers dht P ctx key) = Some g \<and>
           returned (GetClosestPeers dht P ctx key) = Some (Some (g_out g), None)"
  using assms by (simp add: GetClosestPeers_eq)

lemma spawned_all_events:
  assumes "spawned (GetClosestPeers dht P ctx key) = Some g"
  shows "all_events dht P ctx key now0 now1 = begin_trace P ctx key @ go_func dht P g now0 now1"
  using assms by (simp add: all_events_def GetClosestPeers_eq split: if_splits)

lemma refreshes_map_Log [simp]: "refreshes (map Log l @ es) = refreshes es"
  by (induction l) simp_all

lemma refreshes_begin_trace: "refreshes (begin_trace P ctx key) = []"
  by (simp add: begin_trace_def split: option.splits)

text \<open>
  C3. The refresh of the routing table is meant for a run that converged: the comment at
  line 118 gives as its reason that the query was successful. The guard of line 117 tests
  the two pointers only and not the error of the run. At this input the run asks no peer
  and returns the deadline's error beside an empty queried set, and the refresh time of
  the key's address is reset all the same.
\<close>

theorem C3_timeout_still_refreshes:
  "fst (run_of timeout_dht example_pkg (Caller None None) ''K'' 100) =
     (Some \<lparr>closerPeers = [], queriedSet = Some []\<rparr>, Some DeadlineExceeded) \<and>
   peer_queries (all_events timeout_dht example_pkg (Caller None None) ''K'' 100 200) = [] \<and>
   refreshes (all_events timeout_dht example_pkg (Caller None None) ''K'' 100 200) = [(0, 200)]"
  by code_simp

text \<open>
  C4. With a non-empty seed list (and a bucket size that \<^verbatim>\<open>make\<close> accepts: not
  negative and not beyond what the runtime can allocate) the call
  returns the channel and no error, whatever the run will return. The runner is called
  once, with the seeds and a context derived from the caller's, done as soon as the
  caller's is done or one minute after the goroutine started. The error of the run
  appears in one debug line only; then come the finalizer, the deferred calls and the
  close of the channel, and a consumer ranging over the channel receives what was sent,
  which is nothing when the result is nil.
\<close>

theorem C4_run_error_not_surfaced:
  assumes "NearestPeers (routingTable dht) (ConvertKey P key) (AlphaValue P) \<noteq> []"
    and "0 \<le> bucketSize dht"
    and "run_of dht P ctx key now0 = ((res, err), happened)"
    and "bucketSize dht \<le> makechan_max P"
  shows "\<exists>g out. spawned (GetClosestPeers dht P ctx key) = Some g \<and>
           returned (GetClosestPeers dht P ctx key) = Some (Some out, None) \<and>
           g_out g = out \<and>
           run_calls (all_events dht P ctx key now0 now1) =
             [(WithDeadline ctx (now0 + 60000000000),
               NearestPeers (routingTable dht) (ConvertKey P key) (AlphaValue P))] \<and>
           (\<forall>t. is_Done ctx t \<or> now0 + 60000000000 \<le> t \<longrightarrow>
                is_Done (WithDeadline ctx (now0 + 60000000000)) t) \<and>
           go_func dht P g now0 now1 =
             Call_Run (WithDeadline ctx (now0 + 60000000000))
               (NearestPeers (routingTable dht) (ConvertKey P key) (AlphaValue P)) #
             map InRun happened @ (case err of None \<Rightarrow> [] | Some e \<Rightarrow> [Debugf_run e]) @
             finalize dht P key now1 res @ [Cancel, EventDone, Chan Close] \<and>
           (res = None \<longrightarrow> sent (chan_ops (go_func dht P g now0 now1)) = []) \<and>
           (\<exists>c c'. run_ops (chan_ops (go_func dht P g now0 now1)) out = Ok c \<and> ch_closed c \<and>
              drain c = Some (sent (chan_ops (go_func dht P g now0 now1)), c'))"
proof -
  from assms(1) have ne: "seeds dht P key \<noteq> []" by (simp add: seeds_def)
  with assms(2,4) obtain g where g: "spawned (GetClosestPeers dht P ctx key) = Some g"
    and ret: "returned (GetClosestPeers dht P ctx key) = Some (Some (g_out g), None)"
    using spawned_exists by blast
  from g have gk: "g_key g = key" "g_ctx g = ctx" "g_tablepeers g = seeds dht P key"
    by (simp_all add: spawned_Some)
  let ?d = "delivered dht P key res"
  let ?seeds = "NearestPeers (routingTable dht) (ConvertKey P key) (AlphaValue P)"
  let ?ops = "chan_ops (go_func dht P g now0 now1)"
  have rc: "run_calls (all_events dht P ctx key now0 now1) =
      [(WithDeadline ctx (now0 + 60000000000), ?seeds)]"
    by (simp add: spawned_all_events [OF g] run_calls_append begin_trace_quiet
        run_calls_go_func gk WithTimeout_def Minute_def seeds_def)
  have dn: "\<forall>t. is_Done ctx t \<or> now0 + 60000000000 \<le> t \<longrightarrow>
      is_Done (WithDeadline ctx (now0 + 60000000000)) t"
    by simp
  have gf: "go_func dht P g now0 now1 =
      Call_Run (WithDeadline ctx (now0 + 60000000000)) ?seeds #
      map InRun happened @ (case err of None \<Rightarrow> [] | Some e \<Rightarrow> [Debugf_run e]) @
      finalize dht P key now1 res @ [Cancel, EventDone, Chan Close]"
    using go_func_eq [OF spawned_run [OF g assms(3)], of P now1]
    by (simp add: gk WithTimeout_def Minute_def seeds_def)
  have snt: "sent ?ops = ?d"
    by (simp add: spawned_ops [OF g assms(3)] sent_Send)
  have empty: "res = None \<longrightarrow> sent ?ops = []"
    unfolding snt by (simp add: delivered_def)
  have "drain \<lparr>ch_cap = nat (bucketSize dht), ch_buf = ?d, ch_closed = True\<rparr> =
          Some (?d, \<lparr>ch_cap = nat (bucketSize dht), ch_buf = [], ch_closed = True\<rparr>)"
    by (simp add: drain_closed)
  with spawned_run_ops [OF g assms(3), of now1]
  have fin: "\<exists>c c'. run_ops ?ops (g_out g) = Ok c \<and> ch_closed c \<and>
      drain c = Some (sent ?ops, c')"
    unfolding snt by simp
  show ?thesis
    by (insert g ret rc dn gf empty fin, rule exI [of _ g], rule exI [of _ "g_out g"],
        intro conjI) (rule refl | assumption)+
qed

theorem C4_run_error_not_surfaced_witness:
  "NearestPeers (routingTable timeout_dht) (ConvertKey example_pkg ''K'')
     (AlphaValue example_pkg) \<noteq> [] \<and>
   0 \<le> bucketSize timeout_dht \<and>
   bucketSize timeout_dht \<le> makechan_max example_pkg \<and>
   fst (run_of timeout_dht example_pkg (Caller None None) ''K'' 100) =
     (Some \<lparr>closerPeers = [], queriedSet = Some []\<rparr>, Some DeadlineExceeded) \<and>
   returned (GetClosestPeers timeout_dht example_pkg (Caller None None) ''K'') =
     Some (Some \<lparr>ch_cap = 2, ch_buf = [], ch_closed = False\<rparr>, None) \<and>
   run_calls (all_events timeout_dht example_pkg (Caller None None) ''K'' 100 200) =
     [(WithDeadline (Caller None None) 60000000100, [''P1'', ''P2''])]"
proof -
  let ?r = "\<lparr>closerPeers = [], queriedSet = Some []\<rparr>"
  have h1: "NearestPeers (routingTable timeout_dht) (ConvertKey example_pkg ''K'')
     (AlphaValue example_pkg) \<noteq> []"
    by (simp add: timeout_dht_def example_dht_def example_pkg_def)
  have h2: "0 \<le> bucketSize timeout_dht" by (simp add: timeout_dht_def example_dht_def)
  have h4: "bucketSize timeout_dht \<le> makechan_max example_pkg"
    by (simp add: timeout_dht_def example_dht_def example_pkg_def)
  have run: "fst (run_of timeout_dht example_pkg (Caller None None) ''K'' 100) =
      (Some ?r, Some DeadlineExceeded)"
    by code_simp
  then have h3: "run_of timeout_dht example_pkg (Caller None None) ''K'' 100 =
     ((Some ?r, Some DeadlineExceeded),
      snd (run_of timeout_dht example_pkg (Caller None None) ''K'' 100))"
    by (metis prod.collapse)
  have vals: "NearestPeers (routingTable timeout_dht) (ConvertKey example_pkg ''K'')
        (AlphaValue example_pkg) = [''P1'', ''P2'']"
    by (simp add: timeout_dht_def example_dht_def example_pkg_def)
  have out: "returned (GetClosestPeers timeout_dht example_pkg (Caller None None) ''K'') =
     Some (Some \<lparr>ch_cap = 2, ch_buf = [], ch_closed = False\<rparr>, None)"
    by code_simp
  from C4_run_error_not_surfaced [OF h1 h2 h3 h4, where ?now1.0 = 200] h1 h2 h4 run vals out
  show ?thesis by auto
qed

lemma delivery_inv_bounded:
  assumes "delivery_inv n ps s" and "length ps \<le> n"
  shows "length (ch_buf (ch s)) \<le> n"
proof -
  from assms(1) obtain rest where "got s @ ch_buf (ch s) @ rest = ps"
    unfolding delivery_inv_def by blast
  then have "length (got s) + length (ch_buf (ch s)) + length rest = length ps"
    by (metis length_append add.assoc)
  with assms(2) show ?thesis by simp
qed

lemma spawned_reach:
  assumes "spawned (GetClosestPeers dht P ctx key) = Some g"
    and "run_of dht P ctx key now0 = ((res, err), happened)"
    and "reach (init_sys (chan_ops (go_func dht P g now0 now1)) (g_out g)) s"
  shows "delivery_inv (nat (bucketSize dht)) (delivered dht P key res) s"
proof -
  have "delivery_inv (nat (bucketSize dht)) (delivered dht P key res)
          (init_sys (chan_ops (go_func dht P g now0 now1)) (g_out g))"
    by (simp add: spawned_ops [OF assms(1,2)] spawned_out(1) [OF assms(1)] delivery_inv_init)
  with assms(3) show ?thesis by (rule delivery_inv_reach)
qed

lemma spawned_length:
  assumes "spawned (GetClosestPeers dht P ctx key) = Some g"
  shows "length (delivered dht P key res) \<le> nat (bucketSize dht)"
  using length_delivered [OF spawned_out(2) [OF assms], of P key res] by simp

text \<open>
  C7. The channel returned has the capacity \<open>bucketSize\<close> and starts empty and open.
  The goroutine sends the peers closest first and then closes the channel, and does
  nothing else to it. A consumer ranging over the channel receives exactly these peers, and
  a second pass receives nothing. However producer and consumer are interleaved, the
  buffer never holds more than its capacity, what has been received is a prefix of the
  sequence, and once all is done the whole sequence has been received and the channel is
  closed.
\<close>

theorem C7_bounded_queue_delivery:
  assumes "NearestPeers (routingTable dht) (ConvertKey P key) (AlphaValue P) \<noteq> []"
    and "0 \<le> bucketSize dht"
    and "run_of dht P ctx key now0 = ((res, err), happened)"
    and "bucketSize dht \<le> makechan_max P"
    and "ps =
      (case res of
         None \<Rightarrow> []
       | Some r \<Rightarrow>
           (case queriedSet r of
              None \<Rightarrow> []
            | Some qs \<Rightarrow>
                take (nat (bucketSize dht)) (SortClosestPeers P (Peers qs) (ConvertKey P key))))"
  shows "\<exists>g. spawned (GetClosestPeers dht P ctx key) = Some g \<and>
           returned (GetClosestPeers dht P ctx key) = Some (Some (g_out g), None) \<and>
           int (ch_cap (g_out g)) = bucketSize dht \<and>
           ch_buf (g_out g) = [] \<and> \<not> ch_closed (g_out g) \<and>
           chan_ops (go_func dht P g now0 now1) = map Send ps @ [Close] \<and>
           sorted (map (distance P (ConvertKey P key)) ps) \<and>
           (\<exists>c c'. run_ops (chan_ops (go_func dht P g now0 now1)) (g_out g) = Ok c \<and>
              drain c = Some (ps, c') \<and> drain c' = Some ([], c')) \<and>
           (\<forall>s. reach (init_sys (chan_ops (go_func dht P g now0 now1)) (g_out g)) s \<longrightarrow>
              length (ch_buf (ch s)) \<le> ch_cap (g_out g) \<and>
              (\<exists>rest. got s @ rest = ps) \<and>
              (todo s = [] \<and> ch_buf (ch s) = [] \<longrightarrow> got s = ps \<and> ch_closed (ch s)))"
proof -
  from assms(1) have ne: "seeds dht P key \<noteq> []" by (simp add: seeds_def)
  with assms(2,4) obtain g where g: "spawned (GetClosestPeers dht P ctx key) = Some g"
    and ret: "returned (GetClosestPeers dht P ctx key) = Some (Some (g_out g), None)"
    using spawned_exists by blast
  let ?d = "delivered dht P key res"
  let ?ops = "chan_ops (go_func dht P g now0 now1)"
  have ps: "ps = ?d" unfolding assms(5) delivered_def ..
  note out = spawned_out(1) [OF g]
  from out assms(2) have cap: "int (ch_cap (g_out g)) = bucketSize dht"
    and fresh: "ch_buf (g_out g) = []" "\<not> ch_closed (g_out g)"
    by simp_all
  have ops: "?ops = map Send ?d @ [Close]"
    by (rule spawned_ops [OF g assms(3)])
  have srt: "sorted (map (distance P (ConvertKey P key)) ?d)"
    by (rule sorted_delivered)
  have "drain \<lparr>ch_cap = nat (bucketSize dht), ch_buf = ?d, ch_closed = True\<rparr> =
          Some (?d, \<lparr>ch_cap = nat (bucketSize dht), ch_buf = [], ch_closed = True\<rparr>)"
    and "drain \<lparr>ch_cap = nat (bucketSize dht), ch_buf = [], ch_closed = True\<rparr> =
          Some ([], \<lparr>ch_cap = nat (bucketSize dht), ch_buf = [], ch_closed = True\<rparr>)"
    by (simp_all add: drain_closed)
  with spawned_run_ops [OF g assms(3), of now1]
  have once: "\<exists>c c'. run_ops ?ops (g_out g) = Ok c \<and> drain c = Some (?d, c') \<and>
      drain c' = Some ([], c')"
    by simp
  have conc: "\<forall>s. reach (init_sys ?ops (g_out g)) s \<longrightarrow>
      length (ch_buf (ch s)) \<le> ch_cap (g_out g) \<and>
      (\<exists>rest. got s @ rest = ?d) \<and>
      (todo s = [] \<and> ch_buf (ch s) = [] \<longrightarrow> got s = ?d \<and> ch_closed (ch s))"
  proof (intro allI impI)
    fix s assume "reach (init_sys ?ops (g_out g)) s"
    then have inv: "delivery_inv (nat (bucketSize dht)) ?d s"
      by (rule spawned_reach [OF g assms(3)])
    have "length (ch_buf (ch s)) \<le> ch_cap (g_out g)"
      using delivery_inv_bounded [OF inv spawned_length [OF g]] out by simp
    moreover have "\<exists>rest. got s @ rest = ?d"
      using inv by (rule delivery_inv_prefix)
    moreover have "todo s = [] \<and> ch_buf (ch s) = [] \<longrightarrow> got s = ?d \<and> ch_closed (ch s)"
      using delivery_inv_final [OF inv] by blast
    ultimately show "length (ch_buf (ch s)) \<le> ch_cap (g_out g) \<and>
      (\<exists>rest. got s @ rest = ?d) \<and>
      (todo s = [] \<and> ch_buf (ch s) = [] \<longrightarrow> got s = ?d \<and> ch_closed (ch s))"
      by blast
  qed
  show ?thesis
    unfolding ps
    by (insert g ret cap fresh ops srt once conc, rule exI [of _ g], intro conjI) assumption+
qed

text \<open>
  C9. With a non-empty seed list the goroutine sends at most \<open>bucketSize\<close> peers into a
  channel of that capacity. Run with nobody receiving, every send and the close succeed
  and leave all the peers in the buffer of the closed channel; the channel is closed
  once, as the last operation. In any interleaving with a consumer, the next operation of
  the producer can always be performed: it never blocks and never panics.
\<close>

theorem C9_sends_never_block:
  assumes "NearestPeers (routingTable dht) (ConvertKey P key) (AlphaValue P) \<noteq> []"
    and "0 \<le> bucketSize dht"
    and "run_of dht P ctx key now0 = ((res, err), happened)"
    and "bucketSize dht \<le> makechan_max P"
  shows "\<exists>g. spawned (GetClosestPeers dht P ctx key) = Some g \<and>
           int (ch_cap (g_out g)) = bucketSize dht \<and>
           length (sent (chan_ops (go_func dht P g now0 now1))) \<le> ch_cap (g_out g) \<and>
           (\<exists>c. run_ops (chan_ops (go_func dht P g now0 now1)) (g_out g) = Ok c \<and>
              ch_buf c = sent (chan_ops (go_func dht P g now0 now1)) \<and> ch_closed c) \<and>
           filter (\<lambda>x. x = Close) (chan_ops (go_func dht P g now0 now1)) = [Close] \<and>
           last (chan_ops (go_func dht P g now0 now1)) = Close \<and>
           (\<forall>s. reach (init_sys (chan_ops (go_func dht P g now0 now1)) (g_out g)) s \<longrightarrow>
              todo s \<noteq> [] \<longrightarrow> (\<exists>c'. chan_exec (hd (todo s)) (ch s) = Ok c'))"
proof -
  from assms(1) have ne: "seeds dht P key \<noteq> []" by (simp add: seeds_def)
  with assms(2,4) obtain g where g: "spawned (GetClosestPeers dht P ctx key) = Some g"
    using spawned_exists by blast
  let ?d = "delivered dht P key res"
  let ?ops = "chan_ops (go_func dht P g now0 now1)"
  note out = spawned_out(1) [OF g]
  from out assms(2) have cap: "int (ch_cap (g_out g)) = bucketSize dht"
    by simp
  have ops: "?ops = map Send ?d @ [Close]"
    by (rule spawned_ops [OF g assms(3)])
  then have snt: "sent ?ops = ?d" by (simp add: sent_Send)
  have len: "length (sent ?ops) \<le> ch_cap (g_out g)"
    unfolding snt using spawned_length [OF g, of res] out by simp
  have alone: "\<exists>c. run_ops ?ops (g_out g) = Ok c \<and> ch_buf c = sent ?ops \<and> ch_closed c"
    unfolding snt using spawned_run_ops [OF g assms(3), of now1] by simp
  have "filter (\<lambda>x. x = Close) (map Send ?d) = []"
    by (induction ?d) simp_all
  then have once: "filter (\<lambda>x. x = Close) ?ops = [Close]"
    unfolding ops by simp
  have lst: "last ?ops = Close" unfolding ops by simp
  have conc: "\<forall>s. reach (init_sys ?ops (g_out g)) s \<longrightarrow> todo s \<noteq> [] \<longrightarrow>
      (\<exists>c'. chan_exec (hd (todo s)) (ch s) = Ok c')"
  proof (intro allI impI)
    fix s assume "reach (init_sys ?ops (g_out g)) s" and td: "todo s \<noteq> []"
    then have "delivery_inv (nat (bucketSize dht)) ?d s"
      using spawned_reach [OF g assms(3)] by blast
    then show "\<exists>c'. chan_exec (hd (todo s)) (ch s) = Ok c'"
      using spawned_length [OF g] td by (rule delivery_inv_enabled)
  qed
  show ?thesis
    by (insert g cap len alone once lst conc, rule exI [of _ g], intro conjI) assumption+
qed

theorem C7_bounded_queue_delivery_witness:
  "NearestPeers (routingTable example_dht) (ConvertKey example_pkg ''K'')
     (AlphaValue example_pkg) \<noteq> [] \<and>
   0 \<le> bucketSize example_dht \<and>
   bucketSize example_dht \<le> makechan_max example_pkg \<and>
   fst (run_of example_dht example_pkg (Caller None None) ''K'' 100) =
     (Some \<lparr>closerPeers = [], queriedSet = Some [''P1'', ''P3'']\<rparr>, None) \<and>
   returned (GetClosestPeers example_dht example_pkg (Caller None None) ''K'') =
     Some (Some \<lparr>ch_cap = 2, ch_buf = [], ch_closed = False\<rparr>, None) \<and>
   chan_ops (go_func example_dht example_pkg
     (the (spawned (GetClosestPeers example_dht example_pkg (Caller None None) ''K''))) 100 200) =
     [Send ''P3'', Send ''P1'', Close] \<and>
   (\<exists>c c'. run_ops (chan_ops (go_func example_dht example_pkg
       (the (spawned (GetClosestPeers example_dht example_pkg (Caller None None) ''K''))) 100 200))
       \<lparr>ch_cap = 2, ch_buf = [], ch_closed = False\<rparr> = Ok c \<and>
      drain c = Some ([''P3'', ''P1''], c') \<and> drain c' = Some ([], c'))"
proof -
  let ?G = "GetClosestPeers example_dht example_pkg (Caller None None) ''K''"
  let ?r = "\<lparr>closerPeers = [], queriedSet = Some [''P1'', ''P3'']\<rparr>"
  let ?ops = "chan_ops (go_func example_dht example_pkg (the (spawned ?G)) 100 200)"
  have h1: "NearestPeers (routingTable example_dht) (ConvertKey example_pkg ''K'')
     (AlphaValue example_pkg) \<noteq> []"
    by (simp add: example_dht_def example_pkg_def)
  have h2: "0 \<le> bucketSize example_dht" by (simp add: example_dht_def)
  have h4: "bucketSize example_dht \<le> makechan_max example_pkg"
    by (simp add: example_dht_def example_pkg_def)
  have h5: "[''P3'', ''P1''] =
      (case Some ?r of
         None \<Rightarrow> []
       | Some r \<Rightarrow>
           (case queriedSet r of
              None \<Rightarrow> []
            | Some qs \<Rightarrow>
                take (nat (bucketSize example_dht))
                  (SortClosestPeers example_pkg (Peers qs) (ConvertKey example_pkg ''K''))))"
    by code_simp
  have run: "fst (run_of example_dht example_pkg (Caller None None) ''K'' 100) = (Some ?r, None)"
    by code_simp
  then have h3: "run_of example_dht example_pkg (Caller None None) ''K'' 100 =
     ((Some ?r, None), snd (run_of example_dht example_pkg (Caller None None) ''K'' 100))"
    by (metis prod.collapse)
  have out: "g_out (the (spawned ?G)) = \<lparr>ch_cap = 2, ch_buf = [], ch_closed = False\<rparr>"
    by code_simp
  from C7_bounded_queue_delivery [OF h1 h2 h3 h4 h5, where ?now1.0 = 200]
  obtain g where g: "spawned ?G = Some g"
    and ret: "returned ?G = Some (Some (g_out g), None)"
    and ops: "chan_ops (go_func example_dht example_pkg g 100 200) =
        map Send [''P3'', ''P1''] @ [Close]"
    and dr: "\<exists>c c'. run_ops (chan_ops (go_func example_dht example_pkg g 100 200)) (g_out g) = Ok c \<and>
        drain c = Some ([''P3'', ''P1''], c') \<and> drain c' = Some ([], c')"
    by blast
  from g have g0: "g = the (spawned ?G)" by simp
  from ops have ev: "?ops = [Send ''P3'', Send ''P1'', Close]"
    unfolding g0 by simp
  from ret have ret': "returned ?G = Some (Some \<lparr>ch_cap = 2, ch_buf = [], ch_closed = False\<rparr>, None)"
    unfolding g0 out .
  from dr have dr': "\<exists>c c'. run_ops ?ops \<lparr>ch_cap = 2, ch_buf = [], ch_closed = False\<rparr> = Ok c \<and>
      drain c = Some ([''P3'', ''P1''], c') \<and> drain c' = Some ([], c')"
    unfolding g0 out .
  from h1 h2 h4 run ret' ev dr' show ?thesis by (intro conjI)
qed

theorem C9_sends_never_block_witness:
  "NearestPeers (routingTable example_dht) (ConvertKey example_pkg ''K'')
     (AlphaValue example_pkg) \<noteq> [] \<and>
   0 \<le> bucketSize example_dht \<and>
   bucketSize example_dht \<le> makechan_max example_pkg \<and>
   fst (run_of example_dht example_pkg (Caller None None) ''K'' 100) =
     (Some \<lparr>closerPeers = [], queriedSet = Some [''P1'', ''P3'']\<rparr>, None) \<and>
   (\<exists>c. run_ops (chan_ops (go_func example_dht example_pkg
       (the (spawned (GetClosestPeers example_dht example_pkg (Caller None None) ''K''))) 100 200))
       \<lparr>ch_cap = 2, ch_buf = [], ch_closed = False\<rparr> = Ok c \<and>
      ch_buf c = [''P3'', ''P1''] \<and> ch_closed c) \<and>
   reach (init_sys [Send ''P3'', Send ''P1'', Close] \<lparr>ch_cap = 2, ch_buf = [], ch_closed = False\<rparr>)
     (init_sys [Send ''P3'', Send ''P1'', Close] \<lparr>ch_cap = 2, ch_buf = [], ch_closed = False\<rparr>) \<and>
   (\<exists>c'. chan_exec (Send ''P3'') \<lparr>ch_cap = 2, ch_buf = [], ch_closed = False\<rparr> = Ok c')"
proof -
  let ?G = "GetClosestPeers example_dht example_pkg (Caller None None) ''K''"
  let ?r = "\<lparr>closerPeers = [], queriedSet = Some [''P1'', ''P3'']\<rparr>"
  let ?ops = "chan_ops (go_func example_dht example_pkg (the (spawned ?G)) 100 200)"
  let ?out = "\<lparr>ch_cap = 2, ch_buf = [], ch_closed = False\<rparr>"
  let ?s0 = "init_sys [Send ''P3'', Send ''P1'', Close] ?out"
  have h1: "NearestPeers (routingTable example_dht) (ConvertKey example_pkg ''K'')
     (AlphaValue example_pkg) \<noteq> []"
    by (simp add: example_dht_def example_pkg_def)
  have h2: "0 \<le> bucketSize example_dht" by (simp add: example_dht_def)
  have h4: "bucketSize example_dht \<le> makechan_max example_pkg"
    by (simp add: example_dht_def example_pkg_def)
  have run: "fst (run_of example_dht example_pkg (Caller None None) ''K'' 100) = (Some ?r, None)"
    by code_simp
  then have h3: "run_of example_dht example_pkg (Caller None None) ''K'' 100 =
     ((Some ?r, None), snd (run_of example_dht example_pkg (Caller None None) ''K'' 100))"
    by (metis prod.collapse)
  have ev: "?ops = [Send ''P3'', Send ''P1'', Close]" by code_simp
  have out: "g_out (the (spawned ?G)) = ?out" by code_simp
  have rf: "reach ?s0 ?s0" by (rule reach_refl)
  from C9_sends_never_block [OF h1 h2 h3 h4, where ?now1.0 = 200]
  obtain g where g: "spawned ?G = Some g"
    and alone: "\<exists>c. run_ops (chan_ops (go_func example_dht example_pkg g 100 200)) (g_out g) = Ok c \<and>
        ch_buf c = sent (chan_ops (go_func example_dht example_pkg g 100 200)) \<and> ch_closed c"
    and conc: "\<forall>s. reach (init_sys (chan_ops (go_func example_dht example_pkg g 100 200)) (g_out g)) s \<longrightarrow>
        todo s \<noteq> [] \<longrightarrow> (\<exists>c'. chan_exec (hd (todo s)) (ch s) = Ok c')"
    by blast
  from g have g0: "g = the (spawned ?G)" by simp
  from alone have alone': "\<exists>c. run_ops ?ops ?out = Ok c \<and> ch_buf c = [''P3'', ''P1''] \<and> ch_closed c"
    unfolding g0 out by (simp add: ev)
  from conc have "reach ?s0 ?s0 \<longrightarrow> todo ?s0 \<noteq> [] \<longrightarrow>
      (\<exists>c'. chan_exec (hd (todo ?s0)) (ch ?s0) = Ok c')"
    unfolding g0 out ev by blast
  with rf have en: "\<exists>c'. chan_exec (Send ''P3'') ?out = Ok c'"
    by (simp add: init_sys_def)
  from h1 h2 h4 run alone' rf en show ?thesis by (intro conjI)
qed

subsection \<open>The runner of the specification\<close>


lemma known_mark: "known (mark p st cs) = known cs"
  by (induction cs) (simp_all add: known_def mark_def)



lemma known_merge_peers: "set (known (merge_peers ps cs)) = set (known cs) \<union> set ps"
  by (induction ps arbitrary: cs) (auto simp: known_def)








lemma known_worker: "set (known (fst st)) \<subseteq> set (known (fst (worker f ctx q st)))"
  by (auto simp: worker_def known_mark known_merge_peers split: prod.splits option.splits)





lemma known_workers: "set (known (fst st)) \<subseteq> set (known (fst (fold (worker f ctx) qs st)))"
proof (induction qs arbitrary: st)
  case Nil
  show ?case by simp
next
  case (Cons q qs)
  show ?case using known_worker [of st f ctx q] Cons [of "worker f ctx q st"] by auto
qed





















end
